theory Spec2Isabelle
  imports Main "HOL-Library.Word"
begin

unbundle bit_operations_syntax

section \<open>SHA-256, as \<^verbatim>\<open>hashlib.sha256(...).hexdigest()\<close> computes it\<close>

text \<open>
  \<^verbatim>\<open>generate_short_url\<close> calls \<^verbatim>\<open>sha256(str(original_url).encode()).hexdigest()[:8]\<close>.
  The digest is the FIPS 180-4 function on the bytes of the string; it is written out
  here so that the short code of a concrete URL can be computed. A \<open>string\<close> stands for
  the UTF-8 bytes of the Python string (for the ASCII text of a validated URL these are its
  characters), so \<open>encode\<close> maps each character to its byte.
\<close>

type_synonym byte = "8 word"
type_synonym w32 = "32 word"

text \<open>The round constants, eight to a row, in round order.\<close>

definition K256 :: "w32 list" where
  "K256 =
     [0x428a2f98, 0x71374491, 0xb5c0fbcf, 0xe9b5dba5, 0x3956c25b, 0x59f111f1, 0x923f82a4, 0xab1c5ed5] @
     [0xd807aa98, 0x12835b01, 0x243185be, 0x550c7dc3, 0x72be5d74, 0x80deb1fe, 0x9bdc06a7, 0xc19bf174] @
     [0xe49b69c1, 0xefbe4786, 0x0fc19dc6, 0x240ca1cc, 0x2de92c6f, 0x4a7484aa, 0x5cb0a9dc, 0x76f988da] @
     [0x983e5152, 0xa831c66d, 0xb00327c8, 0xbf597fc7, 0xc6e00bf3, 0xd5a79147, 0x06ca6351, 0x14292967] @
     [0x27b70a85, 0x2e1b2138, 0x4d2c6dfc, 0x53380d13, 0x650a7354, 0x766a0abb, 0x81c2c92e, 0x92722c85] @
     [0xa2bfe8a1, 0xa81a664b, 0xc24b8b70, 0xc76c51a3, 0xd192e819, 0xd6990624, 0xf40e3585, 0x106aa070] @
     [0x19a4c116, 0x1e376c08, 0x2748774c, 0x34b0bcb5, 0x391c0cb3, 0x4ed8aa4a, 0x5b9cca4f, 0x682e6ff3] @
     [0x748f82ee, 0x78a5636f, 0x84c87814, 0x8cc70208, 0x90befffa, 0xa4506ceb, 0xbef9a3f7, 0xc67178f2]"

text \<open>The initial hash value.\<close>

definition H256 :: "w32 \<times> w32 \<times> w32 \<times> w32 \<times> w32 \<times> w32 \<times> w32 \<times> w32" where
  "H256 = (0x6a09e667, 0xbb67ae85, 0x3c6ef372, 0xa54ff53a, 0x510e527f, 0x9b05688c, 0x1f83d9ab, 0x5be0cd19)"

definition rotr :: "nat \<Rightarrow> w32 \<Rightarrow> w32" where
  "rotr n x = drop_bit n x OR push_bit (32 - n) x"

definition Ch :: "w32 \<Rightarrow> w32 \<Rightarrow> w32 \<Rightarrow> w32" where
  "Ch x y z = (x AND y) XOR (NOT x AND z)"

definition Maj :: "w32 \<Rightarrow> w32 \<Rightarrow> w32 \<Rightarrow> w32" where
  "Maj x y z = (x AND y) XOR (x AND z) XOR (y AND z)"

definition bsig0 :: "w32 \<Rightarrow> w32" where
  "bsig0 x = rotr 2 x XOR rotr 13 x XOR rotr 22 x"

definition bsig1 :: "w32 \<Rightarrow> w32" where
  "bsig1 x = rotr 6 x XOR rotr 11 x XOR rotr 25 x"

definition ssig0 :: "w32 \<Rightarrow> w32" where
  "ssig0 x = rotr 7 x XOR rotr 18 x XOR drop_bit 3 x"

definition ssig1 :: "w32 \<Rightarrow> w32" where
  "ssig1 x = rotr 17 x XOR rotr 19 x XOR drop_bit 10 x"

text \<open>
  Padding: the byte \<open>0x80\<close>, zero bytes up to 56 modulo 64, and the length of the message in
  bits as eight bytes, most significant first.
\<close>

definition be64 :: "64 word \<Rightarrow> byte list" where
  "be64 n = map (\<lambda>s. ucast (drop_bit s n)) [56, 48, 40, 32, 24, 16, 8, 0]"

definition sha_pad :: "byte list \<Rightarrow> byte list" where
  "sha_pad m = m @ [0x80] @ replicate (nat ((55 - int (length m)) mod 64)) 0 @ be64 (8 * of_nat (length m))"

text \<open>A block is sixteen big-endian words; the schedule extends them to sixty-four.\<close>

definition be32 :: "byte list \<Rightarrow> w32" where
  "be32 bs = foldl (\<lambda>acc b. push_bit 8 acc OR ucast b) 0 bs"

fun chunks :: "nat \<Rightarrow> nat \<Rightarrow> 'a list \<Rightarrow> 'a list list" where
  "chunks 0 k xs = []"
| "chunks (Suc n) k xs = take k xs # chunks n k (drop k xs)"

definition block_words :: "byte list \<Rightarrow> w32 list" where
  "block_words blk = map be32 (chunks 16 4 blk)"

fun schedule :: "nat \<Rightarrow> w32 list \<Rightarrow> w32 list" where
  "schedule 0 w = w"
| "schedule (Suc n) w =
     (let t = length w in
      schedule n (w @ [ssig1 (w ! (t - 2)) + w ! (t - 7) + ssig0 (w ! (t - 15)) + w ! (t - 16)]))"

text \<open>One round on the eight working variables, and the compression of one block.\<close>

type_synonym hstate = "w32 \<times> w32 \<times> w32 \<times> w32 \<times> w32 \<times> w32 \<times> w32 \<times> w32"

definition round256 :: "hstate \<Rightarrow> (w32 \<times> w32) \<Rightarrow> hstate" where
  "round256 s kw =
     (case s of (a, b, c, d, e, f, g, h) \<Rightarrow>
      case kw of (k, w) \<Rightarrow>
       let t1 = h + bsig1 e + Ch e f g + k + w;
           t2 = bsig0 a + Maj a b c
       in (t1 + t2, a, b, c, d + t1, e, f, g))"

definition add_state :: "hstate \<Rightarrow> hstate \<Rightarrow> hstate" where
  "add_state s s' =
     (case s of (a, b, c, d, e, f, g, h) \<Rightarrow>
      case s' of (a', b', c', d', e', f', g', h') \<Rightarrow>
        (a + a', b + b', c + c', d + d', e + e', f + f', g + g', h + h'))"

definition compress :: "hstate \<Rightarrow> byte list \<Rightarrow> hstate" where
  "compress h blk =
     add_state h (foldl round256 h (zip K256 (schedule 48 (block_words blk))))"

definition sha256 :: "byte list \<Rightarrow> hstate" where
  "sha256 m = (let p = sha_pad m in foldl compress H256 (chunks (length p div 64) 64 p))"

text \<open>\<^verbatim>\<open>hexdigest()\<close>: eight lower-case hexadecimal digits for each word of the hash.\<close>

definition hexdigit :: "nat \<Rightarrow> char" where
  "hexdigit n = ''0123456789abcdef'' ! n"

definition hex32 :: "w32 \<Rightarrow> string" where
  "hex32 w = map (\<lambda>s. hexdigit (unat (drop_bit s w AND 0xf))) [28, 24, 20, 16, 12, 8, 4, 0]"

definition hexdigest :: "hstate \<Rightarrow> string" where
  "hexdigest s = (case s of (a, b, c, d, e, f, g, h) \<Rightarrow> concat (map hex32 [a, b, c, d, e, f, g, h]))"

definition encode :: "string \<Rightarrow> byte list" where
  "encode s = map of_char s"

definition generate_short_url :: "string \<Rightarrow> string" where
  "generate_short_url original_url = take 8 (hexdigest (sha256 (encode original_url)))"

section \<open>Python and library values the endpoints rely on\<close>

text \<open>
  An exception that leaves an endpoint is a value. \<open>HTTPException\<close> carries the status code
  and the detail the source raises it with; any other exception is unhandled, and FastAPI
  answers it with status 500.
\<close>

datatype py_error =
    HTTPException nat string
  | TypeError
  | OverflowError
  | AttributeError
  | ValueError

text \<open>
  A naive \<^verbatim>\<open>datetime\<close> is the number of microseconds since \<^verbatim>\<open>datetime.min\<close>
  (0001-01-01 00:00:00); \<^verbatim>\<open>datetime.max\<close> is 9999-12-31 23:59:59.999999. SQLite keeps
  the ISO text of a datetime and \<^verbatim>\<open>datetime.fromisoformat\<close> reads the same value back, so
  a DATETIME column holds the datetime itself.
\<close>

type_synonym datetime = int

definition datetime_max :: datetime where
  "datetime_max = 315537897599999999"

text \<open>
  \<^verbatim>\<open>timedelta(hours=h)\<close>: a \<^verbatim>\<open>TypeError\<close> when \<open>h\<close> is \<^verbatim>\<open>None\<close>, an
  \<^verbatim>\<open>OverflowError\<close> when the normalised number of days exceeds 999999999 in magnitude,
  and otherwise the duration in microseconds.
\<close>

definition timedelta_hours :: "int option \<Rightarrow> py_error + int" where
  "timedelta_hours hours =
     (case hours of
        None \<Rightarrow> Inl TypeError
      | Some h \<Rightarrow> if 999999999 < \<bar>h div 24\<bar> then Inl OverflowError else Inr (h * 3600000000))"

text \<open>\<^verbatim>\<open>datetime + timedelta\<close>: an \<^verbatim>\<open>OverflowError\<close> outside the range of dates.\<close>

definition datetime_add :: "datetime \<Rightarrow> int \<Rightarrow> py_error + datetime" where
  "datetime_add t delta =
     (let r = t + delta in if 0 \<le> r \<and> r \<le> datetime_max then Inr r else Inl OverflowError)"

text \<open>The truth value of an \<^verbatim>\<open>Optional[str]\<close>: \<^verbatim>\<open>None\<close> and the empty string are false.\<close>

definition truthy :: "string option \<Rightarrow> bool" where
  "truthy v = (case v of None \<Rightarrow> False | Some s \<Rightarrow> s \<noteq> [])"

text \<open>
  \<^verbatim>\<open>werkzeug.security.check_password_hash(pwhash, password)\<close> starts with a string method
  of \<open>pwhash\<close> (\<^verbatim>\<open>pwhash.count("$")\<close>, in later versions \<^verbatim>\<open>pwhash.split("$", 2)\<close>), so a
  \<open>pwhash\<close> that is \<^verbatim>\<open>None\<close> raises \<^verbatim>\<open>AttributeError\<close> before anything is compared.
  On a string it answers whether the password hashes to \<open>pwhash\<close>; the hashing itself is the
  library's, taken as the parameter \<open>verify\<close> (which may raise, as the library does on a
  hash method it does not know).
\<close>

definition check_password_hash ::
  "(string \<Rightarrow> string \<Rightarrow> py_error + bool) \<Rightarrow> string option \<Rightarrow> string \<Rightarrow> py_error + bool" where
  "check_password_hash verify pwhash pw =
     (case pwhash of None \<Rightarrow> Inl AttributeError | Some h \<Rightarrow> verify h pw)"

section \<open>The database\<close>

text \<open>
  The two tables of \<^verbatim>\<open>init_db\<close>, each a list of rows in rowid order (the \<^verbatim>\<open>id\<close> column is
  assigned by SQLite in increasing order and read nowhere). Foreign keys are not enforced by
  a connection that does not switch them on, so \<open>AccessLogs\<close> is constrained by nothing.
\<close>

record url_entry =
  original_url :: string
  short_url :: string
  created_at :: datetime
  expires_at :: datetime
  password :: "string option"

record access_log =
  log_short_url :: string
  accessed_at :: datetime
  ip_address :: string

record db =
  URLs :: "url_entry list"
  AccessLogs :: "access_log list"

text \<open>\<^verbatim>\<open>SELECT * FROM URLs WHERE short_url = ?\<close> followed by \<^verbatim>\<open>fetchone()\<close>.\<close>

definition select_url :: "db \<Rightarrow> string \<Rightarrow> url_entry option" where
  "select_url d code = find (\<lambda>r. short_url r = code) (URLs d)"

text \<open>
  \<^verbatim>\<open>INSERT INTO URLs ...\<close>: the UNIQUE constraint on \<open>short_url\<close> raises
  \<^verbatim>\<open>sqlite3.IntegrityError\<close> (the value \<open>None\<close>) and leaves the table as it was.
\<close>

definition insert_url :: "db \<Rightarrow> url_entry \<Rightarrow> db option" where
  "insert_url d row =
     (if short_url row \<in> set (map short_url (URLs d)) then None
      else Some (d\<lparr>URLs := URLs d @ [row]\<rparr>))"

text \<open>\<^verbatim>\<open>INSERT INTO AccessLogs (short_url, accessed_at, ip_address) VALUES (?, ?, ?)\<close>.\<close>

definition insert_access_log :: "db \<Rightarrow> string \<Rightarrow> datetime \<Rightarrow> string \<Rightarrow> db" where
  "insert_access_log d code t ip =
     d\<lparr>AccessLogs := AccessLogs d @ [\<lparr>log_short_url = code, accessed_at = t, ip_address = ip\<rparr>]\<rparr>"

text \<open>
  \<^verbatim>\<open>SELECT accessed_at, ip_address FROM AccessLogs WHERE short_url = ?\<close> followed by
  \<^verbatim>\<open>fetchall()\<close>: the matching rows in table order.
\<close>

definition select_logs :: "db \<Rightarrow> string \<Rightarrow> access_log list" where
  "select_logs d code = filter (\<lambda>l. log_short_url l = code) (AccessLogs d)"

section \<open>Requests and responses\<close>

text \<open>
  \<^verbatim>\<open>URLRequest\<close> after validation: \<open>original_url\<close> is the text \<^verbatim>\<open>str(request.original_url)\<close>
  of the validated URL; \<open>expiry_hours\<close> and \<open>password\<close> are \<^verbatim>\<open>Optional\<close>, so the body may
  omit them (the default applies) or give \<^verbatim>\<open>null\<close>.
\<close>

datatype 'a field = Omitted | Given 'a

record URLRequest =
  request_original_url :: string
  expiry_hours :: "int option"
  request_password :: "string option"

definition parse_URLRequest ::
  "string \<Rightarrow> int option field \<Rightarrow> string option field \<Rightarrow> URLRequest" where
  "parse_URLRequest url hours pw =
     \<lparr>request_original_url = url,
      expiry_hours = (case hours of Omitted \<Rightarrow> Some 24 | Given h \<Rightarrow> h),
      request_password = (case pw of Omitted \<Rightarrow> None | Given p \<Rightarrow> p)\<rparr>"

text \<open>The dictionary \<^verbatim>\<open>analytics_data\<close> both analytics endpoints render.\<close>

record analytics_data =
  analytics_short_url :: string
  analytics_original_url :: string
  analytics_created_at :: datetime
  analytics_expires_at :: datetime
  access_count :: nat
  access_logs :: "(datetime \<times> string) list"

text \<open>
  The four HTML pages of the source are fixed markup around the values they interpolate:
  the password form posts to \<^verbatim>\<open>/{short_url}/validate\<close>, the analytics password form to
  \<^verbatim>\<open>/analytics/{short_url}/validate\<close>, the redirecting page sets \<^verbatim>\<open>window.location.href\<close>
  to the original URL, and the analytics page prints \<^verbatim>\<open>analytics_data\<close>.
\<close>

datatype html =
    PasswordForm string
  | AnalyticsPasswordForm string
  | RedirectingPage string
  | AnalyticsPage analytics_data

datatype response =
    JSONResponse string
  | HTMLResponse html
  | RedirectResponse string

definition public_url :: "string \<Rightarrow> string \<Rightarrow> string" where
  "public_url host code = ''http://'' @ host @ '':8000/'' @ code"

section \<open>The endpoints\<close>

text \<open>
  Every endpoint takes the database and returns it with its result. The readings of
  \<^verbatim>\<open>datetime.now()\<close> are parameters, one for each call in the source, in the order of the
  calls; \<open>host\<close> is \<^verbatim>\<open>request.client.host\<close>.
\<close>

text \<open>
  \<^verbatim>\<open>POST /shorten\<close>. \<open>generate_password_hash\<close> is werkzeug's salted hash with the salt this
  call draws; \<open>now1\<close> is read for \<open>expires_at\<close>, \<open>now2\<close> for \<open>created_at\<close>.
\<close>

definition shorten_url ::
  "(string \<Rightarrow> string) \<Rightarrow> db \<Rightarrow> URLRequest \<Rightarrow> string \<Rightarrow> datetime \<Rightarrow> datetime
     \<Rightarrow> db \<times> (py_error + response)" where
  "shorten_url generate_password_hash d request host now1 now2 =
     (let code = generate_short_url (request_original_url request) in
      case timedelta_hours (expiry_hours request) of
        Inl e \<Rightarrow> (d, Inl e)
      | Inr delta \<Rightarrow>
          (case datetime_add now1 delta of
             Inl e \<Rightarrow> (d, Inl e)
           | Inr expires \<Rightarrow>
               let hashed_password =
                     (case request_password request of
                        None \<Rightarrow> None
                      | Some p \<Rightarrow> if p \<noteq> [] then Some (generate_password_hash p) else None);
                   row = \<lparr>original_url = request_original_url request, short_url = code,
                          created_at = now2, expires_at = expires, password = hashed_password\<rparr>;
                   d' = (case insert_url d row of None \<Rightarrow> d | Some d1 \<Rightarrow> d1)
               in (d', Inr (JSONResponse (public_url host code)))))"

text \<open>\<^verbatim>\<open>GET /{short_url}\<close>. \<open>now1\<close> is read for the expiry test, \<open>now2\<close> for the log row.\<close>

definition redirect_to_url ::
  "db \<Rightarrow> string \<Rightarrow> string \<Rightarrow> datetime \<Rightarrow> datetime \<Rightarrow> db \<times> (py_error + response)" where
  "redirect_to_url d code host now1 now2 =
     (case select_url d code of
        None \<Rightarrow> (d, Inl (HTTPException 404 ''Short URL not found.''))
      | Some url_entry \<Rightarrow>
          if expires_at url_entry < now1 then (d, Inl (HTTPException 410 ''Short URL has expired.''))
          else if truthy (password url_entry) then (d, Inr (HTMLResponse (PasswordForm code)))
          else (insert_access_log d code now2 host,
                Inr (RedirectResponse (original_url url_entry))))"

text \<open>\<^verbatim>\<open>POST /{short_url}/validate\<close>. The endpoint takes no request object.\<close>

definition validate_password ::
  "(string \<Rightarrow> string \<Rightarrow> py_error + bool) \<Rightarrow> db \<Rightarrow> string \<Rightarrow> string \<Rightarrow> datetime
     \<Rightarrow> db \<times> (py_error + response)" where
  "validate_password verify d code pw now =
     (case select_url d code of
        None \<Rightarrow> (d, Inl (HTTPException 404 ''Short URL not found.''))
      | Some url_entry \<Rightarrow>
          (case check_password_hash verify (password url_entry) pw of
             Inl e \<Rightarrow> (d, Inl e)
           | Inr ok \<Rightarrow>
               if \<not> ok then (d, Inl (HTTPException 403 ''Password is incorrect.''))
               else (insert_access_log d code now ''Validated Access'',
                     Inr (HTMLResponse (RedirectingPage (original_url url_entry))))))"

definition make_analytics_data :: "db \<Rightarrow> url_entry \<Rightarrow> string \<Rightarrow> string \<Rightarrow> analytics_data" where
  "make_analytics_data d url_entry code host =
     (let logs = select_logs d code in
      \<lparr>analytics_short_url = public_url host code,
       analytics_original_url = original_url url_entry,
       analytics_created_at = created_at url_entry,
       analytics_expires_at = expires_at url_entry,
       access_count = length logs,
       access_logs = map (\<lambda>l. (accessed_at l, ip_address l)) logs\<rparr>)"

text \<open>\<^verbatim>\<open>POST /analytics/{short_url}/validate\<close>.\<close>

definition validate_analytics_password ::
  "(string \<Rightarrow> string \<Rightarrow> py_error + bool) \<Rightarrow> db \<Rightarrow> string \<Rightarrow> string \<Rightarrow> string
     \<Rightarrow> db \<times> (py_error + response)" where
  "validate_analytics_password verify d code pw host =
     (case select_url d code of
        None \<Rightarrow> (d, Inl (HTTPException 404 ''Short URL not found.''))
      | Some url_entry \<Rightarrow>
          (case check_password_hash verify (password url_entry) pw of
             Inl e \<Rightarrow> (d, Inl e)
           | Inr ok \<Rightarrow>
               if \<not> ok then (d, Inl (HTTPException 403 ''Password is incorrect.''))
               else (d, Inr (HTMLResponse (AnalyticsPage (make_analytics_data d url_entry code host))))))"

text \<open>\<^verbatim>\<open>GET /analytics/{short_url}\<close>, the credential in the header \<^verbatim>\<open>X-Password\<close>.\<close>

definition get_analytics ::
  "(string \<Rightarrow> string \<Rightarrow> py_error + bool) \<Rightarrow> db \<Rightarrow> string \<Rightarrow> string option \<Rightarrow> string
     \<Rightarrow> db \<times> (py_error + response)" where
  "get_analytics verify d code x_password host =
     (case select_url d code of
        None \<Rightarrow> (d, Inl (HTTPException 404 ''Short URL not found.''))
      | Some url_entry \<Rightarrow>
          let form = (d, Inr (HTMLResponse (AnalyticsPasswordForm code)));
              report = (d, Inr (HTMLResponse (AnalyticsPage (make_analytics_data d url_entry code host))))
          in
          if truthy (password url_entry) then
            (case x_password of
               None \<Rightarrow> form
             | Some credential \<Rightarrow>
                 if credential = [] then form
                 else
                   (case check_password_hash verify (password url_entry) credential of
                      Inl e \<Rightarrow> (d, Inl e)
                    | Inr ok \<Rightarrow>
                        if \<not> ok then (d, Inl (HTTPException 403 ''Password is incorrect.''))
                        else report))
          else report)"

section \<open>Predicates the properties are stated with\<close>

text \<open>Every stored link expires after it was created.\<close>

definition expiry_after_creation :: "db \<Rightarrow> bool" where
  "expiry_after_creation d = list_all (\<lambda>r. created_at r < expires_at r) (URLs d)"

text \<open>The access log is in order of time: no row is older than the row before it.\<close>

definition chronological :: "db \<Rightarrow> bool" where
  "chronological d = sorted (map accessed_at (AccessLogs d))"

text \<open>No row of the access log is later than \<open>t\<close>.\<close>

definition logs_up_to :: "db \<Rightarrow> datetime \<Rightarrow> bool" where
  "logs_up_to d t = list_all (\<lambda>l. accessed_at l \<le> t) (AccessLogs d)"

text \<open>The database with the original URL of the link \<open>code\<close> replaced.\<close>

definition with_original_url :: "db \<Rightarrow> string \<Rightarrow> string \<Rightarrow> db" where
  "with_original_url d code url =
     d\<lparr>URLs := map (\<lambda>r. if short_url r = code then r\<lparr>original_url := url\<rparr> else r) (URLs d)\<rparr>"

section \<open>Concrete data for the worked instances\<close>

text \<open>
  A stand-in for werkzeug's hashing, used only where a statement is evaluated at a concrete
  input: \<open>sample_hash\<close> plays \<^verbatim>\<open>generate_password_hash\<close> and \<open>sample_verify\<close> the
  comparison inside \<^verbatim>\<open>check_password_hash\<close>. The database holds one link without a
  password and one with the password \<^verbatim>\<open>secret\<close>, each under the short code of its URL.
\<close>

definition sample_hash :: "string \<Rightarrow> string" where
  "sample_hash p = ''plain$salt$'' @ p"

definition sample_verify :: "string \<Rightarrow> string \<Rightarrow> py_error + bool" where
  "sample_verify h p = Inr (h = sample_hash p)"

definition open_link :: url_entry where
  "open_link = \<lparr>original_url = ''http://example.com/'', short_url = ''2a1b4024'',
                 created_at = 1000, expires_at = 86400001000, password = None\<rparr>"

definition locked_link :: url_entry where
  "locked_link = \<lparr>original_url = ''http://example.org/secret'', short_url = ''cb449d04'',
                   created_at = 2000, expires_at = 3600002000, password = Some (sample_hash ''secret'')\<rparr>"

definition sample_db :: db where
  "sample_db =
     \<lparr>URLs = [open_link, locked_link],
      AccessLogs = [\<lparr>log_short_url = ''2a1b4024'', accessed_at = 5000, ip_address = ''10.0.0.1''\<rparr>,
                    \<lparr>log_short_url = ''cb449d04'', accessed_at = 6000, ip_address = ''Validated Access''\<rparr>,
                    \<lparr>log_short_url = ''2a1b4024'', accessed_at = 7000, ip_address = ''10.0.0.2''\<rparr>]\<rparr>"

definition empty_db :: db where
  "empty_db = \<lparr>URLs = [], AccessLogs = []\<rparr>"

definition sample_request :: URLRequest where
  "sample_request = parse_URLRequest ''http://example.com/'' Omitted Omitted"


definition once_shortened :: db where
  "once_shortened = fst (shorten_url sample_hash empty_db sample_request ''10.0.0.1'' 9000 9005)"

text \<open>
  The database after the sample request and two visits of its link from the empty
  database, the second visit logged with an earlier clock reading than the first.
\<close>

definition visited_backwards :: db where
  "visited_backwards =
     fst (redirect_to_url
           (fst (redirect_to_url once_shortened (generate_short_url ''http://example.com/'')
                   ''10.0.0.7'' 9990 10000))
           (generate_short_url ''http://example.com/'') ''10.0.0.8'' 9490 9500)"

section \<open>The short code\<close>

lemma length_hex32: "length (hex32 w) = 8"
  by (simp add: hex32_def)

lemma hexdigit_in: "n < 16 \<Longrightarrow> hexdigit n \<in> set ''0123456789abcdef''"
  unfolding hexdigit_def by (rule nth_mem) simp

lemma nibble_lt: "unat ((x :: 32 word) AND 0xf) < 16"
proof -
  have "x AND 0xf \<le> 0xf" by (rule word_and_le1)
  then have "unat (x AND 0xf) \<le> unat (0xf :: 32 word)" by (simp add: word_le_nat_alt)
  then show ?thesis by simp
qed

lemma set_hex32: "set (hex32 w) \<subseteq> set ''0123456789abcdef''"
  unfolding hex32_def using hexdigit_in[OF nibble_lt] by auto

lemma take8_hexdigest: "take 8 (hexdigest (a, b, c, d, e, f, g, h)) = hex32 a"
  by (simp add: hexdigest_def length_hex32)

lemma sha256_abc:
  "hexdigest (sha256 (encode ''abc'')) =
     ''ba7816bf8f01cfea414140de5dae2223b00361a396177a9cb410ff61f20015ad''"
  by code_simp

lemma generate_short_url_one_block:
  "generate_short_url ''http://example.com/'' = ''2a1b4024''"
  by code_simp

lemma generate_short_url_two_blocks:
  "generate_short_url ''https://www.example.org/articles/2024/formal-verification?ref=newsletter'' =
     ''71266bdd''"
  by code_simp

text \<open>
  C9. \<open>generate_short_url\<close> is a function of the URL text alone: the first eight characters
  of the hexadecimal SHA-256 digest of its bytes. For every URL the code has exactly eight
  characters, each a lower-case hexadecimal digit. The digest is SHA-256: of the standard
  test message \<^verbatim>\<open>abc\<close> it is the published value, and the codes of a URL of one 64-byte
  block and of a URL of two blocks are the ones \<^verbatim>\<open>hashlib\<close> gives.
\<close>

theorem generate_short_url_hex8:
  "generate_short_url u = take 8 (hexdigest (sha256 (encode u)))
   \<and> length (generate_short_url u) = 8
   \<and> set (generate_short_url u) \<subseteq> set ''0123456789abcdef''
   \<and> hexdigest (sha256 (encode ''abc'')) =
       ''ba7816bf8f01cfea414140de5dae2223b00361a396177a9cb410ff61f20015ad''
   \<and> generate_short_url ''http://example.com/'' = ''2a1b4024''
   \<and> generate_short_url ''https://www.example.org/articles/2024/formal-verification?ref=newsletter'' =
       ''71266bdd''"
proof -
  obtain a b c d e f g h where s: "sha256 (encode u) = (a, b, c, d, e, f, g, h)"
    by (cases "sha256 (encode u)") auto
  have "generate_short_url u = hex32 a"
    by (simp add: generate_short_url_def s take8_hexdigest)
  then have "generate_short_url u = take 8 (hexdigest (sha256 (encode u)))
      \<and> length (generate_short_url u) = 8
      \<and> set (generate_short_url u) \<subseteq> set ''0123456789abcdef''"
    using length_hex32[of a] set_hex32[of a] by (simp add: generate_short_url_def)
  with sha256_abc generate_short_url_one_block generate_short_url_two_blocks
  show ?thesis by blast
qed

theorem generate_short_url_hex8_witness:
  "generate_short_url ''http://example.com/'' = ''2a1b4024''
   \<and> generate_short_url ''https://www.example.org/articles/2024/formal-verification?ref=newsletter'' =
       ''71266bdd''
   \<and> generate_short_url ''http://example.com/'' \<noteq>
       generate_short_url ''https://www.example.org/articles/2024/formal-verification?ref=newsletter''
   \<and> length (generate_short_url ''http://example.com/'') = 8
   \<and> length (generate_short_url
         ''https://www.example.org/articles/2024/formal-verification?ref=newsletter'') = 8
   \<and> take 8 (hexdigest (sha256 (encode ''abc''))) = ''ba7816bf''"
proof -
  note t = generate_short_url_hex8
    [of "''https://www.example.org/articles/2024/formal-verification?ref=newsletter''"]
  from t have one: "generate_short_url ''http://example.com/'' = ''2a1b4024''"
    by blast
  from t have two:
    "generate_short_url ''https://www.example.org/articles/2024/formal-verification?ref=newsletter'' =
       ''71266bdd''"
    by blast
  from t have abc: "hexdigest (sha256 (encode ''abc'')) =
       ''ba7816bf8f01cfea414140de5dae2223b00361a396177a9cb410ff61f20015ad''"
    by blast
  show ?thesis
    by (simp add: one two abc)
qed

section \<open>Facts about the tables and the sample database\<close>

lemma select_url_SomeD:
  "select_url d code = Some e \<Longrightarrow> short_url e = code \<and> e \<in> set (URLs d)"
  by (auto simp: select_url_def find_Some_iff)

lemma select_url_None_iff:
  "select_url d code = None \<longleftrightarrow> code \<notin> set (map short_url (URLs d))"
  by (auto simp: select_url_def find_None_iff)


lemma insert_url_new:
  "select_url d (short_url row) = None \<Longrightarrow> insert_url d row = Some (d\<lparr>URLs := URLs d @ [row]\<rparr>)"
  by (simp add: insert_url_def select_url_None_iff)

lemma timedelta_hours_Some:
  "timedelta_hours (Some h) = Inr delta \<Longrightarrow> delta = h * 3600000000"
  by (simp add: timedelta_hours_def split: if_splits)

lemma datetime_add_Inr:
  "datetime_add t delta = Inr r \<Longrightarrow> r = t + delta"
  by (simp add: datetime_add_def Let_def split: if_splits)

lemma select_url_open: "select_url sample_db ''2a1b4024'' = Some open_link"
  by (simp add: select_url_def sample_db_def open_link_def)

lemma select_url_locked: "select_url sample_db ''cb449d04'' = Some locked_link"
  by (simp add: select_url_def sample_db_def open_link_def locked_link_def)

lemma select_url_unknown: "select_url sample_db ''ffffffff'' = None"
  by (simp add: select_url_def sample_db_def open_link_def locked_link_def)

lemma open_report:
  "make_analytics_data sample_db open_link ''2a1b4024'' ''10.0.0.7'' =
     \<lparr>analytics_short_url = ''http://10.0.0.7:8000/2a1b4024'',
      analytics_original_url = ''http://example.com/'',
      analytics_created_at = 1000, analytics_expires_at = 86400001000,
      access_count = 2, access_logs = [(5000, ''10.0.0.1''), (7000, ''10.0.0.2'')]\<rparr>"
  by (simp add: make_analytics_data_def select_logs_def sample_db_def open_link_def public_url_def)

lemma locked_report:
  "make_analytics_data sample_db locked_link ''cb449d04'' ''10.0.0.7'' =
     \<lparr>analytics_short_url = ''http://10.0.0.7:8000/cb449d04'',
      analytics_original_url = ''http://example.org/secret'',
      analytics_created_at = 2000, analytics_expires_at = 3600002000,
      access_count = 1, access_logs = [(6000, ''Validated Access'')]\<rparr>"
  by (simp add: make_analytics_data_def select_logs_def sample_db_def locked_link_def public_url_def)

lemma open_link_unprotected: "\<not> truthy (password open_link)"
  by (simp add: truthy_def open_link_def)

lemma locked_link_protected: "truthy (password locked_link)"
  by (simp add: truthy_def locked_link_def sample_hash_def)

lemma locked_link_check:
  "check_password_hash sample_verify (password locked_link) ''secret'' = Inr True"
  "check_password_hash sample_verify (password locked_link) ''wrong'' = Inr False"
  "check_password_hash sample_verify (password locked_link) [] = Inr False"
  by (simp_all add: check_password_hash_def locked_link_def sample_verify_def sample_hash_def)

lemma sample_db_chronological: "chronological sample_db"
  by (simp add: chronological_def sample_db_def)

lemma select_url_with_original_url:
  "select_url (with_original_url d code url) code =
     map_option (\<lambda>r. r\<lparr>original_url := url\<rparr>) (select_url d code)"
proof -
  have "find (\<lambda>r. short_url r = code)
          (map (\<lambda>r. if short_url r = code then r\<lparr>original_url := url\<rparr> else r) rows) =
        map_option (\<lambda>r. r\<lparr>original_url := url\<rparr>) (find (\<lambda>r. short_url r = code) rows)" for rows
    by (induction rows) simp_all
  then show ?thesis
    by (simp add: select_url_def with_original_url_def)
qed

section \<open>Password validation\<close>

text \<open>
  C1, as the code has it. For a link with a stored hash and a password that verifies against
  it, \<^verbatim>\<open>POST /{short_url}/validate\<close> answers with the page that redirects to the original
  URL and appends exactly one access log row, whose \<open>ip_address\<close> is the fixed text
  \<^verbatim>\<open>Validated Access\<close>; \<^verbatim>\<open>POST /analytics/{short_url}/validate\<close> answers with the analytics
  page and leaves the database as it was.
\<close>

theorem validate_paths:
  assumes "select_url d code = Some url_entry"
    and "password url_entry = Some h"
    and "verify h pw = Inr True"
  shows "validate_password verify d code pw now =
           (d\<lparr>AccessLogs := AccessLogs d @
                [\<lparr>log_short_url = code, accessed_at = now, ip_address = ''Validated Access''\<rparr>]\<rparr>,
            Inr (HTMLResponse (RedirectingPage (original_url url_entry))))
       \<and> validate_analytics_password verify d code pw host =
           (d, Inr (HTMLResponse (AnalyticsPage (make_analytics_data d url_entry code host))))"
  using assms
  by (simp add: validate_password_def validate_analytics_password_def check_password_hash_def
      insert_access_log_def)

theorem validate_paths_witness:
  "validate_password sample_verify sample_db ''cb449d04'' ''secret'' 9000 =
     (sample_db\<lparr>AccessLogs := AccessLogs sample_db @
        [\<lparr>log_short_url = ''cb449d04'', accessed_at = 9000, ip_address = ''Validated Access''\<rparr>]\<rparr>,
      Inr (HTMLResponse (RedirectingPage ''http://example.org/secret'')))
   \<and> validate_analytics_password sample_verify sample_db ''cb449d04'' ''secret'' ''10.0.0.9'' =
     (sample_db, Inr (HTMLResponse (AnalyticsPage
        \<lparr>analytics_short_url = ''http://10.0.0.9:8000/cb449d04'',
         analytics_original_url = ''http://example.org/secret'',
         analytics_created_at = 2000, analytics_expires_at = 3600002000,
         access_count = 1, access_logs = [(6000, ''Validated Access'')]\<rparr>)))"
proof -
  have p: "password locked_link = Some (sample_hash ''secret'')"
    by (simp add: locked_link_def)
  have v: "sample_verify (sample_hash ''secret'') ''secret'' = Inr True"
    by (simp add: sample_verify_def)
  have m: "make_analytics_data sample_db locked_link ''cb449d04'' ''10.0.0.9'' =
        \<lparr>analytics_short_url = ''http://10.0.0.9:8000/cb449d04'',
         analytics_original_url = ''http://example.org/secret'',
         analytics_created_at = 2000, analytics_expires_at = 3600002000,
         access_count = 1, access_logs = [(6000, ''Validated Access'')]\<rparr>"
    by (simp add: make_analytics_data_def select_logs_def sample_db_def locked_link_def public_url_def)
  show ?thesis
    using validate_paths [where verify = sample_verify and pw = "''secret''" and now = 9000
        and host = "''10.0.0.9''", OF select_url_locked p v]
    by (simp add: m) (simp add: locked_link_def)
qed

text \<open>
  The claim as the specification words it fails on the sample database: with the right
  password the analytics form appends no row and answers with no redirect, and the row
  the direct form appends carries the fixed text, since that endpoint is never given the caller's address.
\<close>

theorem validate_paths_counterexample:
  "check_password_hash sample_verify (password locked_link) ''secret'' = Inr True
   \<and> AccessLogs (fst (validate_analytics_password sample_verify sample_db ''cb449d04'' ''secret'' ''10.0.0.9''))
       = AccessLogs sample_db
   \<and> snd (validate_analytics_password sample_verify sample_db ''cb449d04'' ''secret'' ''10.0.0.9'')
       \<noteq> Inr (RedirectResponse (original_url locked_link))
   \<and> AccessLogs (fst (validate_password sample_verify sample_db ''cb449d04'' ''secret'' 9000))
       = AccessLogs sample_db @
          [\<lparr>log_short_url = ''cb449d04'', accessed_at = 9000, ip_address = ''Validated Access''\<rparr>]"
  by (simp add: validate_password_def validate_analytics_password_def check_password_hash_def
      insert_access_log_def select_url_locked locked_link_def sample_verify_def)

text \<open>
  C2, at the input where the code departs from it. For a link stored without a password,
  \<^verbatim>\<open>POST /{short_url}/validate\<close> hands \<^verbatim>\<open>None\<close> to \<^verbatim>\<open>check_password_hash\<close>, which
  raises \<^verbatim>\<open>AttributeError\<close>: the request ends in an unhandled exception and not in the
  403 the endpoint raises for a wrong password. No row is appended.
\<close>

theorem validate_password_unprotected:
  assumes "select_url d code = Some url_entry"
    and "password url_entry = None"
  shows "validate_password verify d code pw now = (d, Inl AttributeError)
       \<and> validate_password verify d code pw now \<noteq> (d, Inl (HTTPException 403 ''Password is incorrect.''))"
  using assms by (simp add: validate_password_def check_password_hash_def)

theorem validate_password_unprotected_witness:
  "validate_password sample_verify sample_db ''2a1b4024'' ''secret'' 9000 = (sample_db, Inl AttributeError)"
  using validate_password_unprotected [where verify = sample_verify and pw = "''secret''"
      and now = 9000, OF select_url_open]
  by (simp add: open_link_def)

section \<open>Creating links\<close>

lemma shorten_url_URLs:
  "URLs (fst (shorten_url gen d request host now1 now2)) = URLs d
   \<or> (\<exists>h pw. expiry_hours request = Some h
        \<and> URLs (fst (shorten_url gen d request host now1 now2)) =
            URLs d @ [\<lparr>original_url = request_original_url request,
                       short_url = generate_short_url (request_original_url request),
                       created_at = now2, expires_at = now1 + h * 3600000000, password = pw\<rparr>])"
proof (cases "expiry_hours request")
  case None
  then show ?thesis by (simp add: shorten_url_def timedelta_hours_def)
next
  case (Some h)
  show ?thesis
  proof (cases "timedelta_hours (Some h)")
    case (Inl e)
    then show ?thesis by (simp add: shorten_url_def Some)
  next
    case (Inr delta)
    note td = this
    show ?thesis
    proof (cases "datetime_add now1 delta")
      case (Inl e)
      then show ?thesis by (simp add: shorten_url_def Some td)
    next
      case (Inr expires)
      have e: "expires = now1 + h * 3600000000"
        using datetime_add_Inr[OF Inr] timedelta_hours_Some[OF td] by simp
      show ?thesis
        by (auto simp: shorten_url_def Some td Inr e Let_def insert_url_def split: option.splits)
    qed
  qed
qed





text \<open>
  C3, as the code has it. A request that omits \<open>expiry_hours\<close> gets 24, and no check makes
  the value positive. \<^verbatim>\<open>POST /shorten\<close> stores \<open>expires_at\<close> as its first clock reading
  plus that many hours and \<open>created_at\<close> as its second reading, taken at the insert. When the
  hours are positive and the second reading is less than one hour after the first, the call
  keeps every stored link expiring after its creation; a link it adds has exactly these two
  times; and no other endpoint changes the table of links.
\<close>

theorem shorten_url_expiry:
  "expiry_hours (parse_URLRequest url Omitted pw) = Some 24
   \<and> (expiry_after_creation d \<and> expiry_hours request = Some h \<and> 0 < h
        \<and> now2 - now1 < 3600000000
      \<longrightarrow> expiry_after_creation (fst (shorten_url gen d request host now1 now2)))
   \<and> (select_url d (generate_short_url (request_original_url request)) = None
        \<and> expiry_hours request = Some h \<and> \<bar>h div 24\<bar> \<le> 999999999
        \<and> 0 \<le> now1 + h * 3600000000 \<and> now1 + h * 3600000000 \<le> datetime_max
      \<longrightarrow> (\<exists>stored. URLs (fst (shorten_url gen d request host now1 now2)) =
            URLs d @ [\<lparr>original_url = request_original_url request,
                       short_url = generate_short_url (request_original_url request),
                       created_at = now2, expires_at = now1 + h * 3600000000,
                       password = stored\<rparr>]))
   \<and> URLs (fst (redirect_to_url d code host now1 now2)) = URLs d
   \<and> URLs (fst (validate_password verify d code p now1)) = URLs d
   \<and> URLs (fst (validate_analytics_password verify d code p host)) = URLs d
   \<and> URLs (fst (get_analytics verify d code x_password host)) = URLs d"
proof -
  have a: "expiry_hours (parse_URLRequest url Omitted pw) = Some 24"
    by (simp add: parse_URLRequest_def)
  have b: "expiry_after_creation (fst (shorten_url gen d request host now1 now2))"
    if "expiry_after_creation d" "expiry_hours request = Some h" "0 < h"
       "now2 - now1 < 3600000000"
  proof -
    from \<open>0 < h\<close> have "1 * 3600000000 \<le> h * (3600000000 :: int)"
      by (intro mult_right_mono) simp_all
    with that(4) have "now2 < now1 + h * 3600000000" by simp
    with shorten_url_URLs[of gen d request host now1 now2] that(1,2)
    show ?thesis
      by (auto simp: expiry_after_creation_def)
  qed
  have c: "\<exists>stored. URLs (fst (shorten_url gen d request host now1 now2)) =
            URLs d @ [\<lparr>original_url = request_original_url request,
                       short_url = generate_short_url (request_original_url request),
                       created_at = now2, expires_at = now1 + h * 3600000000,
                       password = stored\<rparr>]"
    if "select_url d (generate_short_url (request_original_url request)) = None"
       "expiry_hours request = Some h" "\<bar>h div 24\<bar> \<le> 999999999"
       "0 \<le> now1 + h * 3600000000" "now1 + h * 3600000000 \<le> datetime_max"
    using that
    by (simp add: shorten_url_def timedelta_hours_def datetime_add_def Let_def insert_url_new)
  have r: "URLs (fst (redirect_to_url d code host now1 now2)) = URLs d"
    by (simp add: redirect_to_url_def insert_access_log_def split: option.splits)
  have v: "URLs (fst (validate_password verify d code p now1)) = URLs d"
    by (simp add: validate_password_def insert_access_log_def split: option.splits sum.splits)
  have va: "URLs (fst (validate_analytics_password verify d code p host)) = URLs d"
    by (simp add: validate_analytics_password_def split: option.splits sum.splits)
  have g: "URLs (fst (get_analytics verify d code x_password host)) = URLs d"
    by (simp add: get_analytics_def Let_def split: option.splits sum.splits)
  from a b c r v va g show ?thesis by blast
qed

theorem shorten_url_expiry_witness:
  "expiry_after_creation
     (fst (shorten_url sample_hash empty_db sample_request ''10.0.0.1'' 9000 9005))
   \<and> URLs (fst (shorten_url sample_hash empty_db sample_request ''10.0.0.1'' 9000 9005)) =
       [\<lparr>original_url = ''http://example.com/'',
         short_url = generate_short_url ''http://example.com/'',
         created_at = 9005, expires_at = 86400009000, password = None\<rparr>]"
proof -
  have i: "expiry_after_creation empty_db"
    by (simp add: expiry_after_creation_def empty_db_def)
  have h: "expiry_hours sample_request = Some 24"
    by (simp add: sample_request_def parse_URLRequest_def)
  have n: "select_url empty_db (generate_short_url (request_original_url sample_request)) = None"
    by (simp add: select_url_def empty_db_def)
  have two: "URLs (fst (shorten_url sample_hash empty_db sample_request ''10.0.0.1'' 9000 9005)) =
       [\<lparr>original_url = ''http://example.com/'',
         short_url = generate_short_url ''http://example.com/'',
         created_at = 9005, expires_at = 86400009000, password = None\<rparr>]"
    by (simp add: shorten_url_def sample_request_def parse_URLRequest_def timedelta_hours_def
        datetime_add_def datetime_max_def insert_url_def empty_db_def Let_def)
  have "expiry_after_creation
     (fst (shorten_url sample_hash empty_db sample_request ''10.0.0.1'' 9000 9005))"
    using shorten_url_expiry [where d = empty_db and request = sample_request and h = 24
        and ?now1.0 = 9000 and ?now2.0 = 9005 and gen = sample_hash and host = "''10.0.0.1''"
        and url = "''http://example.com/''" and pw = Omitted and code = "''2a1b4024''"
        and verify = sample_verify and p = "''secret''" and x_password = None]
      i h n
    by simp
  with two show ?thesis by simp
qed

text \<open>
  The claim as the specification words it fails in two ways. A request with
  \<open>expiry_hours = -1\<close> is accepted, and the link it stores expires an hour before it was
  created. And with \<open>expiry_hours = 1\<close>, when the clock reads one hour more at the insert than
  it did when the expiry was computed (as a local clock does across a change to summer time),
  the stored link expires at the instant of its creation.
\<close>

theorem shorten_url_expiry_counterexample:
  "\<not> expiry_after_creation
       (fst (shorten_url sample_hash empty_db
              (parse_URLRequest ''http://example.com/'' (Given (Some (- 1))) Omitted)
              ''10.0.0.1'' 7200000000 7200000005))
   \<and> \<not> expiry_after_creation
       (fst (shorten_url sample_hash empty_db
              (parse_URLRequest ''http://example.com/'' (Given (Some 1)) Omitted)
              ''10.0.0.1'' 7200000000 10800000000))"
  by (simp add: shorten_url_def parse_URLRequest_def timedelta_hours_def
      datetime_add_def datetime_max_def insert_url_def empty_db_def Let_def
      expiry_after_creation_def)




section \<open>Following a short code\<close>

text \<open>
  C5, as the code has it. \<^verbatim>\<open>GET /{short_url}\<close> raises 404 when no link has the code and
  410 when \<open>expires_at\<close> is before the clock reading, whether or not the link has a password,
  so a link whose expiry is in the past is never redirected to. At and before the instant of
  expiry itself the request is not refused as expired.
\<close>

theorem redirect_to_url_errors:
  "(select_url d code = None
      \<longrightarrow> redirect_to_url d code host now1 now2 = (d, Inl (HTTPException 404 ''Short URL not found.'')))
   \<and> (select_url d code = Some url_entry \<and> expires_at url_entry < now1
      \<longrightarrow> redirect_to_url d code host now1 now2 = (d, Inl (HTTPException 410 ''Short URL has expired.'')))
   \<and> (select_url d code = Some url_entry \<and> now1 \<le> expires_at url_entry
      \<longrightarrow> snd (redirect_to_url d code host now1 now2) \<noteq> Inl (HTTPException 410 ''Short URL has expired.''))"
  by (simp add: redirect_to_url_def)

theorem redirect_to_url_errors_witness:
  "redirect_to_url sample_db ''ffffffff'' ''10.0.0.7'' 9000 9001 =
     (sample_db, Inl (HTTPException 404 ''Short URL not found.''))
   \<and> redirect_to_url sample_db ''2a1b4024'' ''10.0.0.7'' 86400001001 86400001002 =
     (sample_db, Inl (HTTPException 410 ''Short URL has expired.''))
   \<and> redirect_to_url sample_db ''cb449d04'' ''10.0.0.7'' 3600002001 3600002002 =
     (sample_db, Inl (HTTPException 410 ''Short URL has expired.''))
   \<and> snd (redirect_to_url sample_db ''2a1b4024'' ''10.0.0.7'' 9000 9001)
       \<noteq> Inl (HTTPException 410 ''Short URL has expired.'')"
proof -
  have e1: "expires_at open_link = 86400001000" by (simp add: open_link_def)
  have e2: "expires_at locked_link = 3600002000" by (simp add: locked_link_def)
  show ?thesis
    using redirect_to_url_errors [where d = sample_db and code = "''ffffffff''"
        and host = "''10.0.0.7''" and ?now1.0 = 9000 and ?now2.0 = 9001 and url_entry = open_link]
      redirect_to_url_errors [where d = sample_db and code = "''2a1b4024''"
        and host = "''10.0.0.7''" and ?now1.0 = 86400001001 and ?now2.0 = 86400001002
        and url_entry = open_link]
      redirect_to_url_errors [where d = sample_db and code = "''cb449d04''"
        and host = "''10.0.0.7''" and ?now1.0 = 3600002001 and ?now2.0 = 3600002002
        and url_entry = locked_link]
      redirect_to_url_errors [where d = sample_db and code = "''2a1b4024''"
        and host = "''10.0.0.7''" and ?now1.0 = 9000 and ?now2.0 = 9001 and url_entry = open_link]
    by (simp add: select_url_open select_url_locked select_url_unknown e1 e2)
qed

text \<open>
  The claim as the specification words it fails at the instant of expiry: with the clock
  equal to \<open>expires_at\<close> the link without a password is still redirected to, and the access
  is logged.
\<close>

theorem redirect_to_url_errors_counterexample:
  "expires_at open_link \<le> 86400001000
   \<and> redirect_to_url sample_db ''2a1b4024'' ''10.0.0.7'' 86400001000 86400001003 =
     (sample_db\<lparr>AccessLogs := AccessLogs sample_db @
        [\<lparr>log_short_url = ''2a1b4024'', accessed_at = 86400001003, ip_address = ''10.0.0.7''\<rparr>]\<rparr>,
      Inr (RedirectResponse ''http://example.com/''))"
  by (simp add: redirect_to_url_def select_url_open insert_access_log_def truthy_def)
    (simp add: open_link_def)

text \<open>
  C7. For a link with a password that has not expired, \<^verbatim>\<open>GET /{short_url}\<close> answers with
  the password form for the short code and leaves the database, the access log included, as
  it was. The answer is the same whatever the link's original URL is.
\<close>

theorem redirect_to_url_protected:
  assumes "select_url d code = Some url_entry"
    and "truthy (password url_entry)"
    and "now1 \<le> expires_at url_entry"
  shows "redirect_to_url d code host now1 now2 = (d, Inr (HTMLResponse (PasswordForm code)))
       \<and> snd (redirect_to_url (with_original_url d code url) code host now1 now2) =
           Inr (HTMLResponse (PasswordForm code))"
  using assms
  by (simp add: redirect_to_url_def select_url_with_original_url)

theorem redirect_to_url_protected_witness:
  "redirect_to_url sample_db ''cb449d04'' ''10.0.0.7'' 9000 9001 =
     (sample_db, Inr (HTMLResponse (PasswordForm ''cb449d04'')))
   \<and> snd (redirect_to_url (with_original_url sample_db ''cb449d04'' ''http://example.net/other'')
            ''cb449d04'' ''10.0.0.7'' 9000 9001) =
       Inr (HTMLResponse (PasswordForm ''cb449d04''))"
proof -
  have e: "9000 \<le> expires_at locked_link" by (simp add: locked_link_def)
  show ?thesis
    using redirect_to_url_protected [OF select_url_locked locked_link_protected e,
        where host = "''10.0.0.7''" and ?now2.0 = 9001 and url = "''http://example.net/other''"]
    by simp
qed

section \<open>Analytics\<close>

lemma sorted_report:
  "chronological d \<Longrightarrow> sorted (map fst (access_logs (make_analytics_data d e code host)))"
  by (simp add: chronological_def make_analytics_data_def select_logs_def Let_def comp_def
      sorted_filter)

lemma insert_access_log_chronological:
  "chronological d \<Longrightarrow> logs_up_to d now \<Longrightarrow> chronological (insert_access_log d code now ip)"
  by (auto simp: chronological_def logs_up_to_def insert_access_log_def sorted_append list_all_iff)

lemma visited_backwards_eq:
  "visited_backwards =
     \<lparr>URLs = [\<lparr>original_url = ''http://example.com/'',
                short_url = generate_short_url ''http://example.com/'',
                created_at = 9005, expires_at = 86400009000, password = None\<rparr>],
      AccessLogs = [\<lparr>log_short_url = generate_short_url ''http://example.com/'',
                      accessed_at = 10000, ip_address = ''10.0.0.7''\<rparr>,
                    \<lparr>log_short_url = generate_short_url ''http://example.com/'',
                      accessed_at = 9500, ip_address = ''10.0.0.8''\<rparr>]\<rparr>"
  by (simp add: visited_backwards_def redirect_to_url_def select_url_def once_shortened_def
      shorten_url_def sample_request_def parse_URLRequest_def timedelta_hours_def datetime_add_def
      datetime_max_def insert_url_def empty_db_def insert_access_log_def truthy_def Let_def)

lemma sample_db_logs_up_to: "logs_up_to sample_db 8000"
  by (simp add: logs_up_to_def sample_db_def)

text \<open>
  C6, as the code has it. For a stored link, \<^verbatim>\<open>GET /analytics/{short_url}\<close> answers with
  the report when the link has no password; when it has one, with the password form if the
  header is absent or empty, with 403 if a non-empty credential fails verification, and with
  the report if it verifies. The report counts the access log rows of the code and lists
  them in table order, unsorted. That order is the order of time whenever the table is in
  order of time, and every endpoint keeps the table so as long as the clock reading it logs
  is not earlier than a row already stored.
\<close>

theorem get_analytics_cases:
  assumes "select_url d code = Some url_entry"
  shows "(\<not> truthy (password url_entry)
          \<longrightarrow> get_analytics verify d code x_password host =
              (d, Inr (HTMLResponse (AnalyticsPage (make_analytics_data d url_entry code host)))))
       \<and> (truthy (password url_entry) \<and> (x_password = None \<or> x_password = Some [])
          \<longrightarrow> get_analytics verify d code x_password host =
              (d, Inr (HTMLResponse (AnalyticsPasswordForm code))))
       \<and> (truthy (password url_entry) \<and> x_password = Some credential \<and> credential \<noteq> []
            \<and> check_password_hash verify (password url_entry) credential = Inr False
          \<longrightarrow> get_analytics verify d code x_password host =
              (d, Inl (HTTPException 403 ''Password is incorrect.'')))
       \<and> (truthy (password url_entry) \<and> x_password = Some credential \<and> credential \<noteq> []
            \<and> check_password_hash verify (password url_entry) credential = Inr True
          \<longrightarrow> get_analytics verify d code x_password host =
              (d, Inr (HTMLResponse (AnalyticsPage (make_analytics_data d url_entry code host)))))
       \<and> access_count (make_analytics_data d url_entry code host) =
            length (filter (\<lambda>l. log_short_url l = code) (AccessLogs d))
       \<and> access_logs (make_analytics_data d url_entry code host) =
            map (\<lambda>l. (accessed_at l, ip_address l)) (filter (\<lambda>l. log_short_url l = code) (AccessLogs d))
       \<and> (chronological d
          \<longrightarrow> sorted (map fst (access_logs (make_analytics_data d url_entry code host))))
       \<and> (chronological d \<and> logs_up_to d now2
          \<longrightarrow> chronological (fst (redirect_to_url d code' host' now1 now2)))
       \<and> (chronological d \<and> logs_up_to d now2
          \<longrightarrow> chronological (fst (validate_password verify d code' pw now2)))
       \<and> AccessLogs (fst (shorten_url gen d request host' now1 now2)) = AccessLogs d
       \<and> AccessLogs (fst (validate_analytics_password verify d code' pw host')) = AccessLogs d
       \<and> AccessLogs (fst (get_analytics verify d code' x_password host')) = AccessLogs d"
proof -
  have 1: "get_analytics verify d code x_password host =
              (d, Inr (HTMLResponse (AnalyticsPage (make_analytics_data d url_entry code host))))"
    if "\<not> truthy (password url_entry)"
    using that assms by (simp add: get_analytics_def Let_def)
  have 2: "get_analytics verify d code x_password host =
              (d, Inr (HTMLResponse (AnalyticsPasswordForm code)))"
    if "truthy (password url_entry)" "x_password = None \<or> x_password = Some []"
    using that assms by (auto simp: get_analytics_def Let_def)
  have 3: "get_analytics verify d code x_password host =
              (d, Inl (HTTPException 403 ''Password is incorrect.''))"
    if "truthy (password url_entry)" "x_password = Some credential" "credential \<noteq> []"
       "check_password_hash verify (password url_entry) credential = Inr False"
    using that assms by (simp add: get_analytics_def Let_def)
  have 4: "get_analytics verify d code x_password host =
              (d, Inr (HTMLResponse (AnalyticsPage (make_analytics_data d url_entry code host))))"
    if "truthy (password url_entry)" "x_password = Some credential" "credential \<noteq> []"
       "check_password_hash verify (password url_entry) credential = Inr True"
    using that assms by (simp add: get_analytics_def Let_def)
  have 5: "access_count (make_analytics_data d url_entry code host) =
            length (filter (\<lambda>l. log_short_url l = code) (AccessLogs d))"
    by (simp add: make_analytics_data_def select_logs_def Let_def)
  have 6: "access_logs (make_analytics_data d url_entry code host) =
            map (\<lambda>l. (accessed_at l, ip_address l)) (filter (\<lambda>l. log_short_url l = code) (AccessLogs d))"
    by (simp add: make_analytics_data_def select_logs_def Let_def)
  have 7: "chronological (fst (redirect_to_url d code' host' now1 now2))"
    if "chronological d" "logs_up_to d now2"
    using that insert_access_log_chronological[OF that, of code' host']
    by (simp add: redirect_to_url_def split: option.splits)
  have 8: "chronological (fst (validate_password verify d code' pw now2))"
    if "chronological d" "logs_up_to d now2"
    using that insert_access_log_chronological[OF that, of code' "''Validated Access''"]
    by (simp add: validate_password_def split: option.splits sum.splits)
  have 9: "AccessLogs (fst (shorten_url gen d request host' now1 now2)) = AccessLogs d"
    by (simp add: shorten_url_def insert_url_def Let_def split: option.splits sum.splits)
  have 10: "AccessLogs (fst (validate_analytics_password verify d code' pw host')) = AccessLogs d"
    by (simp add: validate_analytics_password_def split: option.splits sum.splits)
  have 11: "AccessLogs (fst (get_analytics verify d code' x_password host')) = AccessLogs d"
    by (simp add: get_analytics_def Let_def split: option.splits sum.splits)
  from 1 2 3 4 5 6 7 8 9 10 11 sorted_report[of d url_entry code host] show ?thesis by blast
qed

theorem get_analytics_cases_witness:
  "get_analytics sample_verify sample_db ''2a1b4024'' None ''10.0.0.7'' =
     (sample_db, Inr (HTMLResponse (AnalyticsPage
        \<lparr>analytics_short_url = ''http://10.0.0.7:8000/2a1b4024'',
         analytics_original_url = ''http://example.com/'',
         analytics_created_at = 1000, analytics_expires_at = 86400001000,
         access_count = 2, access_logs = [(5000, ''10.0.0.1''), (7000, ''10.0.0.2'')]\<rparr>)))
   \<and> get_analytics sample_verify sample_db ''cb449d04'' None ''10.0.0.7'' =
     (sample_db, Inr (HTMLResponse (AnalyticsPasswordForm ''cb449d04'')))
   \<and> get_analytics sample_verify sample_db ''cb449d04'' (Some ''wrong'') ''10.0.0.7'' =
     (sample_db, Inl (HTTPException 403 ''Password is incorrect.''))
   \<and> get_analytics sample_verify sample_db ''cb449d04'' (Some ''secret'') ''10.0.0.7'' =
     (sample_db, Inr (HTMLResponse (AnalyticsPage
        \<lparr>analytics_short_url = ''http://10.0.0.7:8000/cb449d04'',
         analytics_original_url = ''http://example.org/secret'',
         analytics_created_at = 2000, analytics_expires_at = 3600002000,
         access_count = 1, access_logs = [(6000, ''Validated Access'')]\<rparr>)))
   \<and> sorted (map fst (access_logs (make_analytics_data sample_db open_link ''2a1b4024'' ''10.0.0.7'')))
   \<and> chronological (fst (redirect_to_url sample_db ''2a1b4024'' ''10.0.0.7'' 7990 8000))
   \<and> chronological (fst (validate_password sample_verify sample_db ''cb449d04'' ''secret'' 8000))"
proof -
  note inst = get_analytics_cases [where verify = sample_verify and host = "''10.0.0.7''"
      and host' = "''10.0.0.7''" and ?now1.0 = 7990 and ?now2.0 = 8000 and gen = sample_hash
      and request = sample_request]
  have a: "get_analytics sample_verify sample_db ''2a1b4024'' None ''10.0.0.7'' =
     (sample_db, Inr (HTMLResponse (AnalyticsPage
        (make_analytics_data sample_db open_link ''2a1b4024'' ''10.0.0.7''))))
     \<and> sorted (map fst (access_logs (make_analytics_data sample_db open_link ''2a1b4024'' ''10.0.0.7'')))
     \<and> chronological (fst (redirect_to_url sample_db ''2a1b4024'' ''10.0.0.7'' 7990 8000))"
    using inst [OF select_url_open, where x_password = None and credential = "[]"
        and code' = "''2a1b4024''" and pw = "''secret''"]
      open_link_unprotected sample_db_chronological sample_db_logs_up_to
    by blast
  have b: "get_analytics sample_verify sample_db ''cb449d04'' None ''10.0.0.7'' =
     (sample_db, Inr (HTMLResponse (AnalyticsPasswordForm ''cb449d04'')))
     \<and> chronological (fst (validate_password sample_verify sample_db ''cb449d04'' ''secret'' 8000))"
    using inst [OF select_url_locked, where x_password = None and credential = "[]"
        and code' = "''cb449d04''" and pw = "''secret''"]
      locked_link_protected sample_db_chronological sample_db_logs_up_to
    by blast
  have c: "get_analytics sample_verify sample_db ''cb449d04'' (Some ''wrong'') ''10.0.0.7'' =
     (sample_db, Inl (HTTPException 403 ''Password is incorrect.''))"
    using inst [OF select_url_locked, where x_password = "Some ''wrong''" and credential = "''wrong''"
        and code' = "''cb449d04''" and pw = "''secret''"]
      locked_link_protected locked_link_check(2)
    by simp
  have d: "get_analytics sample_verify sample_db ''cb449d04'' (Some ''secret'') ''10.0.0.7'' =
     (sample_db, Inr (HTMLResponse (AnalyticsPage
        (make_analytics_data sample_db locked_link ''cb449d04'' ''10.0.0.7''))))"
    using inst [OF select_url_locked, where x_password = "Some ''secret''" and credential = "''secret''"
        and code' = "''cb449d04''" and pw = "''secret''"]
      locked_link_protected locked_link_check(1)
    by simp
  from a b c d show ?thesis
    by (simp add: open_report locked_report)
qed

text \<open>
  The claim as the specification words it fails in two ways. An empty credential is supplied
  and it is wrong, yet the answer is the password form and not 403. And after a link is
  created in the empty database and visited twice, the second visit logged with an earlier
  clock reading than the first, the report lists the two rows as they were inserted, which
  is not the order of their times.
\<close>

theorem get_analytics_cases_counterexample:
  "truthy (password locked_link)
   \<and> check_password_hash sample_verify (password locked_link) [] = Inr False
   \<and> get_analytics sample_verify sample_db ''cb449d04'' (Some []) ''10.0.0.7'' =
       (sample_db, Inr (HTMLResponse (AnalyticsPasswordForm ''cb449d04'')))
   \<and> get_analytics sample_verify visited_backwards (generate_short_url ''http://example.com/'')
        None ''10.0.0.9'' =
       (visited_backwards, Inr (HTMLResponse (AnalyticsPage
          \<lparr>analytics_short_url = ''http://10.0.0.9:8000/'' @ generate_short_url ''http://example.com/'',
           analytics_original_url = ''http://example.com/'',
           analytics_created_at = 9005, analytics_expires_at = 86400009000,
           access_count = 2,
           access_logs = [(10000, ''10.0.0.7''), (9500, ''10.0.0.8'')]\<rparr>)))
   \<and> \<not> sorted (map fst [(10000 :: int, ''10.0.0.7''), (9500, ''10.0.0.8'')])"
proof -
  have a: "get_analytics sample_verify sample_db ''cb449d04'' (Some []) ''10.0.0.7'' =
       (sample_db, Inr (HTMLResponse (AnalyticsPasswordForm ''cb449d04'')))"
    by (simp add: locked_link_protected get_analytics_def select_url_locked Let_def)
  have b: "get_analytics sample_verify visited_backwards (generate_short_url ''http://example.com/'')
        None ''10.0.0.9'' =
       (visited_backwards, Inr (HTMLResponse (AnalyticsPage
          \<lparr>analytics_short_url = ''http://10.0.0.9:8000/'' @ generate_short_url ''http://example.com/'',
           analytics_original_url = ''http://example.com/'',
           analytics_created_at = 9005, analytics_expires_at = 86400009000,
           access_count = 2,
           access_logs = [(10000, ''10.0.0.7''), (9500, ''10.0.0.8'')]\<rparr>)))"
    unfolding visited_backwards_eq
    by (simp add: get_analytics_def select_url_def truthy_def Let_def make_analytics_data_def
        select_logs_def public_url_def)
  from a b show ?thesis
    by (simp add: locked_link_protected locked_link_check)
qed

text \<open>
  C8. \<^verbatim>\<open>GET /analytics/{short_url}\<close> returns the database it was given, for every stored
  state, short code, header value and caller: no link and no access log row is added,
  changed or removed.
\<close>

theorem get_analytics_read_only:
  "fst (get_analytics verify d code x_password host) = d"
  by (simp add: get_analytics_def Let_def split: option.splits sum.splits)

theorem get_analytics_read_only_witness:
  "fst (get_analytics sample_verify sample_db ''cb449d04'' (Some ''secret'') ''10.0.0.7'') = sample_db
   \<and> fst (get_analytics sample_verify sample_db ''2a1b4024'' None ''10.0.0.7'') = sample_db
   \<and> fst (get_analytics sample_verify sample_db ''ffffffff'' (Some ''wrong'') ''10.0.0.7'') = sample_db"
  using get_analytics_read_only [of sample_verify sample_db "''cb449d04''" "Some ''secret''" "''10.0.0.7''"]
    get_analytics_read_only [of sample_verify sample_db "''2a1b4024''" None "''10.0.0.7''"]
    get_analytics_read_only [of sample_verify sample_db "''ffffffff''" "Some ''wrong''" "''10.0.0.7''"]
  by simp

section \<open>Expiry is tested by one endpoint only\<close>

text \<open>
  C10. For a link whose \<open>expires_at\<close> is before the clock, \<^verbatim>\<open>GET /{short_url}\<close> raises
  410, while \<^verbatim>\<open>POST /{short_url}/validate\<close> with a password that verifies still answers with
  the redirecting page and appends an access log row, and \<^verbatim>\<open>GET /analytics/{short_url}\<close>
  still answers with the report (for a link without a password, or with a credential that
  verifies).
\<close>

theorem expiry_only_in_redirect:
  assumes "select_url d code = Some url_entry"
    and "expires_at url_entry < now"
  shows "redirect_to_url d code host now now2 = (d, Inl (HTTPException 410 ''Short URL has expired.''))
       \<and> (password url_entry = Some h \<and> verify h pw = Inr True
          \<longrightarrow> validate_password verify d code pw now =
              (d\<lparr>AccessLogs := AccessLogs d @
                  [\<lparr>log_short_url = code, accessed_at = now, ip_address = ''Validated Access''\<rparr>]\<rparr>,
               Inr (HTMLResponse (RedirectingPage (original_url url_entry)))))
       \<and> (\<not> truthy (password url_entry)
          \<longrightarrow> get_analytics verify d code x_password host =
              (d, Inr (HTMLResponse (AnalyticsPage (make_analytics_data d url_entry code host)))))
       \<and> (truthy (password url_entry) \<and> credential \<noteq> []
            \<and> check_password_hash verify (password url_entry) credential = Inr True
          \<longrightarrow> get_analytics verify d code (Some credential) host =
              (d, Inr (HTMLResponse (AnalyticsPage (make_analytics_data d url_entry code host)))))"
  using assms
  by (simp add: redirect_to_url_def validate_password_def check_password_hash_def
      insert_access_log_def get_analytics_def Let_def)

theorem expiry_only_in_redirect_witness:
  "redirect_to_url sample_db ''cb449d04'' ''10.0.0.7'' 90000000000 90000000001 =
     (sample_db, Inl (HTTPException 410 ''Short URL has expired.''))
   \<and> validate_password sample_verify sample_db ''cb449d04'' ''secret'' 90000000000 =
     (sample_db\<lparr>AccessLogs := AccessLogs sample_db @
        [\<lparr>log_short_url = ''cb449d04'', accessed_at = 90000000000, ip_address = ''Validated Access''\<rparr>]\<rparr>,
      Inr (HTMLResponse (RedirectingPage ''http://example.org/secret'')))
   \<and> get_analytics sample_verify sample_db ''cb449d04'' (Some ''secret'') ''10.0.0.7'' =
     (sample_db, Inr (HTMLResponse (AnalyticsPage
        (make_analytics_data sample_db locked_link ''cb449d04'' ''10.0.0.7''))))
   \<and> get_analytics sample_verify sample_db ''2a1b4024'' None ''10.0.0.7'' =
     (sample_db, Inr (HTMLResponse (AnalyticsPage
        (make_analytics_data sample_db open_link ''2a1b4024'' ''10.0.0.7''))))"
proof -
  have e1: "expires_at locked_link < 90000000000" by (simp add: locked_link_def)
  have e2: "expires_at open_link < 90000000000" by (simp add: open_link_def)
  have p: "password locked_link = Some (sample_hash ''secret'')" by (simp add: locked_link_def)
  have v: "sample_verify (sample_hash ''secret'') ''secret'' = Inr True"
    by (simp add: sample_verify_def)
  have o: "original_url locked_link = ''http://example.org/secret''" by (simp add: locked_link_def)
  show ?thesis
    using expiry_only_in_redirect [OF select_url_locked e1, where host = "''10.0.0.7''"
        and ?now2.0 = 90000000001 and h = "sample_hash ''secret''" and verify = sample_verify
        and pw = "''secret''" and credential = "''secret''" and x_password = None]
      expiry_only_in_redirect [OF select_url_open e2, where host = "''10.0.0.7''"
        and ?now2.0 = 90000000001 and h = "sample_hash ''secret''" and verify = sample_verify
        and pw = "''secret''" and credential = "''secret''" and x_password = None]
      p v o locked_link_protected open_link_unprotected locked_link_check(1)
    by simp
qed

end
